theory Spec2Isabelle
  imports
    Complex_Main
    "HOL-Library.Char_ord"
    "HOL-Library.List_Lexorder"
    "HOL-Library.Product_Lexorder"
    "HOL-Library.Option_ord"
begin

section \<open>JavaScript numbers\<close>

text \<open>
  The dashboard is TypeScript; every \<^verbatim>\<open>number\<close> is an IEEE-754 double. A double is
  embedded by the real number it denotes, with the values that are not real numbers
  written out: the negative zero, the two infinities and NaN. \<open>Finite 0\<close> is the
  positive zero.

  Comparisons of doubles are exact, so \<open>js_lt\<close> and \<open>js_gt\<close> compare the denoted
  reals. An arithmetic result that is finite and not zero is rounded to the nearest
  double (and may overflow to an infinity or underflow to a zero); that rounding is the
  parameter \<open>rnd\<close> of the arithmetic operations, and nothing below depends on
  what it returns.
\<close>

datatype jsnum = Finite real | NegZero | PosInf | NegInf | NaN

fun is_nan :: "jsnum \<Rightarrow> bool" where
  "is_nan NaN = True"
| "is_nan _ = False"

fun is_inf :: "jsnum \<Rightarrow> bool" where
  "is_inf PosInf = True"
| "is_inf NegInf = True"
| "is_inf _ = False"

fun is_zero :: "jsnum \<Rightarrow> bool" where
  "is_zero (Finite r) = (r = 0)"
| "is_zero NegZero = True"
| "is_zero _ = False"

text \<open>The sign bit of a number that is not NaN.\<close>

fun sign_bit :: "jsnum \<Rightarrow> bool" where
  "sign_bit (Finite r) = (r < 0)"
| "sign_bit NegZero = True"
| "sign_bit NegInf = True"
| "sign_bit _ = False"

text \<open>The real value of a finite number (both zeros are 0).\<close>

fun fin_val :: "jsnum \<Rightarrow> real" where
  "fin_val (Finite r) = r"
| "fin_val _ = 0"

fun signed_inf :: "bool \<Rightarrow> jsnum" where
  "signed_inf True = NegInf"
| "signed_inf False = PosInf"

fun signed_zero :: "bool \<Rightarrow> jsnum" where
  "signed_zero True = NegZero"
| "signed_zero False = Finite 0"

text \<open>\<^verbatim>\<open>Number.isFinite\<close>: neither NaN nor an infinity.\<close>

definition number_isFinite :: "jsnum \<Rightarrow> bool" where
  "number_isFinite a = (\<not> is_nan a \<and> \<not> is_inf a)"

text \<open>\<^verbatim>\<open>a < b\<close> and \<^verbatim>\<open>a > b\<close>: false as soon as an operand is NaN.\<close>

definition js_lt :: "jsnum \<Rightarrow> jsnum \<Rightarrow> bool" where
  "js_lt a b =
     (if is_nan a \<or> is_nan b then False
      else if a = PosInf \<or> b = NegInf then False
      else if a = NegInf \<or> b = PosInf then True
      else fin_val a < fin_val b)"

definition js_gt :: "jsnum \<Rightarrow> jsnum \<Rightarrow> bool" where
  "js_gt a b = js_lt b a"

text \<open>Unary minus flips the sign bit and is exact.\<close>

fun js_neg :: "jsnum \<Rightarrow> jsnum" where
  "js_neg (Finite r) = (if r = 0 then NegZero else Finite (- r))"
| "js_neg NegZero = Finite 0"
| "js_neg PosInf = NegInf"
| "js_neg NegInf = PosInf"
| "js_neg NaN = NaN"

text \<open>
  \<^verbatim>\<open>a + b\<close>: NaN for opposite infinities; a sum that is exactly zero is the positive
  zero unless both operands are negative zeros.
\<close>

definition js_add :: "(real \<Rightarrow> jsnum) \<Rightarrow> jsnum \<Rightarrow> jsnum \<Rightarrow> jsnum" where
  "js_add rnd a b =
     (if is_nan a \<or> is_nan b then NaN
      else if is_inf a then (if is_inf b \<and> sign_bit a \<noteq> sign_bit b then NaN else a)
      else if is_inf b then b
      else if is_zero a \<and> is_zero b then signed_zero (sign_bit a \<and> sign_bit b)
      else if fin_val a + fin_val b = 0 then Finite 0
      else rnd (fin_val a + fin_val b))"

text \<open>\<^verbatim>\<open>a * b\<close>: NaN for zero times infinity; the sign is the exclusive or of the signs.\<close>

definition js_mul :: "(real \<Rightarrow> jsnum) \<Rightarrow> jsnum \<Rightarrow> jsnum \<Rightarrow> jsnum" where
  "js_mul rnd a b =
     (if is_nan a \<or> is_nan b then NaN
      else if (is_inf a \<and> is_zero b) \<or> (is_zero a \<and> is_inf b) then NaN
      else if is_inf a \<or> is_inf b then signed_inf (sign_bit a \<noteq> sign_bit b)
      else if is_zero a \<or> is_zero b then signed_zero (sign_bit a \<noteq> sign_bit b)
      else rnd (fin_val a * fin_val b))"

text \<open>
  \<^verbatim>\<open>a / b\<close>: division by a zero does not raise. It is NaN for \<open>0 / 0\<close> and
  \<open>\<infinity> / \<infinity>\<close>, and an infinity for any other dividend over a zero.
\<close>

definition js_div :: "(real \<Rightarrow> jsnum) \<Rightarrow> jsnum \<Rightarrow> jsnum \<Rightarrow> jsnum" where
  "js_div rnd a b =
     (if is_nan a \<or> is_nan b then NaN
      else if is_inf a then (if is_inf b then NaN else signed_inf (sign_bit a \<noteq> sign_bit b))
      else if is_inf b then signed_zero (sign_bit a \<noteq> sign_bit b)
      else if is_zero b then
        (if is_zero a then NaN else signed_inf (sign_bit a \<noteq> sign_bit b))
      else if is_zero a then signed_zero (sign_bit a \<noteq> sign_bit b)
      else rnd (fin_val a / fin_val b))"

text \<open>
  The doubles that the decimal literals \<^verbatim>\<open>0.1\<close> and \<^verbatim>\<open>0.1000001\<close> denote (the
  nearest double to each): \<open>3602879701896397 / 2^55\<close> and \<open>7205766609552197 / 2^56\<close>.
\<close>

definition double_0_1 :: real where
  "double_0_1 = 3602879701896397 / 36028797018963968"

definition double_0_1000001 :: real where
  "double_0_1000001 = 7205766609552197 / 72057594037927936"

section \<open>Sentiment labels in the dashboard\<close>

text \<open>
  \<^verbatim>\<open>getSentimentLabel\<close> of the Dashboard component returns the label together with the
  colour of the chip that shows it:
  \<^verbatim>\<open>
  if (score > 0.1) return { label: 'Positive', color: 'success' };
  if (score < -0.1) return { label: 'Negative', color: 'error' };
  return { label: 'Neutral', color: 'warning' };
  \<close>
\<close>

datatype chip_color = Success | Warning | Error

record sentiment_info =
  label :: string
  color :: chip_color

definition Dashboard_getSentimentLabel :: "jsnum \<Rightarrow> sentiment_info" where
  "Dashboard_getSentimentLabel score =
     (if js_gt score (Finite double_0_1) then \<lparr>label = ''Positive'', color = Success\<rparr>
      else if js_lt score (js_neg (Finite double_0_1)) then \<lparr>label = ''Negative'', color = Error\<rparr>
      else \<lparr>label = ''Neutral'', color = Warning\<rparr>)"

text \<open>The BarList component has the two halves as separate functions.\<close>

definition BarList_getSentimentColor :: "jsnum \<Rightarrow> chip_color" where
  "BarList_getSentimentColor score =
     (if js_gt score (Finite double_0_1) then Success
      else if js_lt score (js_neg (Finite double_0_1)) then Error
      else Warning)"

definition BarList_getSentimentLabel :: "jsnum \<Rightarrow> string" where
  "BarList_getSentimentLabel score =
     (if js_gt score (Finite double_0_1) then ''Positive''
      else if js_lt score (js_neg (Finite double_0_1)) then ''Negative''
      else ''Neutral'')"

text \<open>
  The three sentiment categories of the data model, and the category that a label text
  and a chip colour stand for.
\<close>

datatype sentiment_category = Positive | Negative | Neutral

definition category_of_label :: "string \<Rightarrow> sentiment_category option" where
  "category_of_label s =
     (if s = ''Positive'' then Some Positive
      else if s = ''Negative'' then Some Negative
      else if s = ''Neutral'' then Some Neutral
      else None)"

fun category_of_color :: "chip_color \<Rightarrow> sentiment_category" where
  "category_of_color Success = Positive"
| "category_of_color Error = Negative"
| "category_of_color Warning = Neutral"

section \<open>Percentages in the dashboard\<close>

text \<open>The rows of \<^verbatim>\<open>GET /quality/metrics\<close> (interface \<^verbatim>\<open>QualityMetrics\<close>).\<close>

record QualityMetrics =
  processing_date :: string
  total_posts_processed :: jsnum
  valid_posts :: jsnum
  invalid_posts :: jsnum
  spam_filtered :: jsnum
  mentions_found :: jsnum
  unique_bars_mentioned :: jsnum
  average_confidence :: jsnum
  data_quality_score :: jsnum

text \<open>
  The DataQuality table shows, under the count of valid posts,
  \<^verbatim>\<open>((metric.valid_posts / metric.total_posts_processed) * 100).toFixed(1)\<close>.
  This is the number that \<^verbatim>\<open>toFixed\<close> receives.
\<close>

definition DataQuality_valid_percentage :: "(real \<Rightarrow> jsnum) \<Rightarrow> QualityMetrics \<Rightarrow> jsnum" where
  "DataQuality_valid_percentage rnd metric =
     js_mul rnd (js_div rnd (valid_posts metric) (total_posts_processed metric)) (Finite 100)"

text \<open>A row of the table with the given counts of valid and of processed posts.\<close>

definition quality_row :: "jsnum \<Rightarrow> jsnum \<Rightarrow> QualityMetrics" where
  "quality_row n_valid n_total =
     \<lparr>processing_date = ''2023-06-20T14:30:00Z'', total_posts_processed = n_total,
      valid_posts = n_valid, invalid_posts = Finite 0, spam_filtered = Finite 0,
      mentions_found = Finite 0, unique_bars_mentioned = Finite 0,
      average_confidence = Finite 0, data_quality_score = Finite 0\<rparr>"

text \<open>
  The Dashboard renders one row per entry of \<^verbatim>\<open>sentiment_distribution\<close>, a
  \<^verbatim>\<open>Record<string, number>\<close> whose entries keep their order:
  \<^verbatim>\<open>
  const total = Object.values(analytics.sentiment_distribution).reduce((a, b) => a + b, 0);
  const percentage = total > 0 ? (count / total) * 100 : 0;
  \<close>
\<close>

definition Dashboard_distribution_total :: "(real \<Rightarrow> jsnum) \<Rightarrow> (string \<times> jsnum) list \<Rightarrow> jsnum" where
  "Dashboard_distribution_total rnd distribution =
     foldl (js_add rnd) (Finite 0) (map snd distribution)"

definition Dashboard_percentage :: "(real \<Rightarrow> jsnum) \<Rightarrow> (string \<times> jsnum) list \<Rightarrow> jsnum \<Rightarrow> jsnum" where
  "Dashboard_percentage rnd distribution cnt =
     (let total = Dashboard_distribution_total rnd distribution
      in if js_gt total (Finite 0) then js_mul rnd (js_div rnd cnt total) (Finite 100)
         else Finite 0)"

definition Dashboard_distribution_rows ::
  "(real \<Rightarrow> jsnum) \<Rightarrow> (string \<times> jsnum) list \<Rightarrow> (string \<times> jsnum) list" where
  "Dashboard_distribution_rows rnd distribution =
     map (\<lambda>(sentiment, cnt). (sentiment, Dashboard_percentage rnd distribution cnt))
       distribution"

section \<open>The analytics summary of the API client\<close>

text \<open>
  A response body after \<^verbatim>\<open>JSON.parse\<close>. An object is the list of its own properties in
  insertion order, each key once.
\<close>

datatype json =
  JNull
| JBool bool
| JNumber jsnum
| JString string
| JArray "json list"
| JObject "(string \<times> json) list"

fun is_number :: "json \<Rightarrow> bool" where
  "is_number (JNumber _) = True"
| "is_number _ = False"

fun is_string :: "json \<Rightarrow> bool" where
  "is_string (JString _) = True"
| "is_string _ = False"

fun property :: "string \<Rightarrow> json \<Rightarrow> json option" where
  "property k (JObject kvs) = map_of kvs k"
| "property k _ = None"

fun property_names :: "json \<Rightarrow> string list" where
  "property_names (JObject kvs) = map fst kvs"
| "property_names _ = []"

text \<open>
  What a TypeScript interface says of a value: a required member \<^verbatim>\<open>k: T\<close> is present and
  of type \<open>T\<close>, an optional member \<^verbatim>\<open>k?: T\<close> is of type \<open>T\<close> when it is present. An
  interface does not forbid further properties.
\<close>

definition required :: "string \<Rightarrow> (json \<Rightarrow> bool) \<Rightarrow> json \<Rightarrow> bool" where
  "required k T v = (case property k v of Some x \<Rightarrow> T x | None \<Rightarrow> False)"

definition optional :: "string \<Rightarrow> (json \<Rightarrow> bool) \<Rightarrow> json \<Rightarrow> bool" where
  "optional k T v = (case property k v of Some x \<Rightarrow> T x | None \<Rightarrow> True)"

fun is_array_of :: "(json \<Rightarrow> bool) \<Rightarrow> json \<Rightarrow> bool" where
  "is_array_of T (JArray xs) = list_all T xs"
| "is_array_of T _ = False"

text \<open>\<^verbatim>\<open>Record<string, T>\<close>: an object all of whose property values are of type \<open>T\<close>.\<close>

fun is_record_of :: "(json \<Rightarrow> bool) \<Rightarrow> json \<Rightarrow> bool" where
  "is_record_of T (JObject kvs) = list_all (\<lambda>kv. T (snd kv)) kvs"
| "is_record_of T _ = False"

text \<open>
  The interface \<^verbatim>\<open>AnalyticsSummary\<close> of \<^verbatim>\<open>types/api\<close>:
  \<^verbatim>\<open>
  total_mentions: number;  unique_bars: number;  avg_sentiment_score: number;
  sentiment_distribution: Record<string, number>;
  top_bars: Array<{ name: string; mentions: number; sentiment: number }>;
  trending_foods: Array<{ food: string; count: number }>;
  data_quality_score?: number;  analysis_date: string;
  \<close>
\<close>

definition is_top_bar :: "json \<Rightarrow> bool" where
  "is_top_bar v =
     (required ''name'' is_string v \<and> required ''mentions'' is_number v \<and>
      required ''sentiment'' is_number v)"

definition is_trending_food :: "json \<Rightarrow> bool" where
  "is_trending_food v = (required ''food'' is_string v \<and> required ''count'' is_number v)"

definition is_AnalyticsSummary :: "json \<Rightarrow> bool" where
  "is_AnalyticsSummary v =
     (required ''total_mentions'' is_number v \<and>
      required ''unique_bars'' is_number v \<and>
      required ''avg_sentiment_score'' is_number v \<and>
      required ''sentiment_distribution'' (is_record_of is_number) v \<and>
      required ''top_bars'' (is_array_of is_top_bar) v \<and>
      required ''trending_foods'' (is_array_of is_trending_food) v \<and>
      optional ''data_quality_score'' is_number v \<and>
      required ''analysis_date'' is_string v)"

text \<open>
  The ways an axios request fails, as \<^verbatim>\<open>handleApiError\<close> tells them apart: the server
  answered with an error status, no answer arrived, or the request could not be sent.
\<close>

datatype api_error = ErrorStatus nat | NoResponse | RequestFailed

text \<open>
  \<^verbatim>\<open>ApiService.getAnalyticsSummary\<close> awaits \<^verbatim>\<open>api.get('/analytics/summary')\<close> and returns
  \<^verbatim>\<open>response.data\<close>; a rejected request rejects the call. The HTTP client is the
  parameter \<open>get\<close>: the body it parsed, or the error. The type argument
  \<^verbatim>\<open>AnalyticsSummary\<close> is erased when the code is compiled, so nothing is checked here.
\<close>

definition getAnalyticsSummary :: "(string \<Rightarrow> api_error + json) \<Rightarrow> api_error + json" where
  "getAnalyticsSummary get =
     (case get ''/analytics/summary'' of
        Inl err \<Rightarrow> Inl err
      | Inr response_data \<Rightarrow> Inr response_data)"

text \<open>
  The shape the specification gives for the same result, in its words:
  \<^verbatim>\<open>{total_mentions, unique_entities, avg_sentiment_score,
    sentiment_distribution: {positive,negative,neutral},
    top_entities: [{name, mentions, sentiment}], data_quality_score?, analysis_date}\<close>.
  An object has exactly a shape when it has every required name and no name besides the
  required and the optional ones.
\<close>

definition exactly_members :: "string list \<Rightarrow> string list \<Rightarrow> json \<Rightarrow> bool" where
  "exactly_members req opt v =
     (list_all (\<lambda>k. k \<in> set (property_names v)) req \<and>
      list_all (\<lambda>k. k \<in> set (req @ opt)) (property_names v))"

definition spec_summary_shape :: "json \<Rightarrow> bool" where
  "spec_summary_shape v =
     (exactly_members
        [''total_mentions'', ''unique_entities'', ''avg_sentiment_score'',
         ''sentiment_distribution'', ''top_entities'', ''analysis_date'']
        [''data_quality_score''] v \<and>
      required ''sentiment_distribution''
        (exactly_members [''positive'', ''negative'', ''neutral''] []) v \<and>
      required ''top_entities''
        (is_array_of (exactly_members [''name'', ''mentions'', ''sentiment''] [])) v)"

text \<open>
  The same kind of shape with the members that the client declares and the Dashboard
  reads: \<^verbatim>\<open>unique_bars\<close> and \<^verbatim>\<open>top_bars\<close> under their own names, and
  \<^verbatim>\<open>trending_foods: [{food, count}]\<close> besides.
\<close>

definition dashboard_summary_shape :: "json \<Rightarrow> bool" where
  "dashboard_summary_shape v =
     (exactly_members
        [''total_mentions'', ''unique_bars'', ''avg_sentiment_score'',
         ''sentiment_distribution'', ''top_bars'', ''trending_foods'', ''analysis_date'']
        [''data_quality_score''] v \<and>
      required ''sentiment_distribution''
        (exactly_members [''positive'', ''negative'', ''neutral''] []) v \<and>
      required ''top_bars''
        (is_array_of (exactly_members [''name'', ''mentions'', ''sentiment''] [])) v \<and>
      required ''trending_foods''
        (is_array_of (exactly_members [''food'', ''count''] [])) v)"

text \<open>An HTTP client whose every request succeeds with the given body.\<close>

definition respond_with :: "json \<Rightarrow> string \<Rightarrow> api_error + json" where
  "respond_with body path = Inr body"

text \<open>
  A response in the format that the API documentation gives for
  \<^verbatim>\<open>GET /analytics/summary\<close>.
\<close>

definition documented_summary :: json where
  "documented_summary =
     JObject
      [(''total_mentions'', JNumber (Finite 5000)),
       (''unique_bars'', JNumber (Finite 25)),
       (''avg_sentiment_score'', JNumber (Finite (1 / 8))),
       (''sentiment_distribution'',
          JObject [(''positive'', JNumber (Finite 2000)), (''negative'', JNumber (Finite 1500)),
                   (''neutral'', JNumber (Finite 1500))]),
       (''top_bars'',
          JArray [JObject [(''name'', JString ''Good Robot''), (''mentions'', JNumber (Finite 279)),
                           (''sentiment'', JNumber (Finite (1 / 4)))]]),
       (''trending_foods'',
          JArray [JObject [(''food'', JString ''wings''), (''count'', JNumber (Finite 800))]]),
       (''data_quality_score'', JNumber (Finite (3 / 4))),
       (''analysis_date'', JString ''2023-06-20T14:30:00Z'')]"

text \<open>
  A successful response that lacks most members of the interface. The Dashboard reads a
  summary defensively (\<^verbatim>\<open>analytics?.unique_bars || 0\<close>,
  \<^verbatim>\<open>analytics?.sentiment_distribution && ...\<close>, \<^verbatim>\<open>analytics?.trending_foods && ...\<close>).
\<close>

definition partial_summary :: json where
  "partial_summary =
     JObject [(''total_mentions'', JNumber (Finite 0)), (''unique_bars'', JNumber (Finite 0))]"

section \<open>The analytics engine behind the API\<close>

text \<open>
  The dashboard only displays what the backend computes. The backend's aggregation code
  (the Python packages \<^verbatim>\<open>src/models\<close> and \<^verbatim>\<open>src/services\<close> of the README) is not among
  the sources that this development embeds, so the definitions of this section follow the
  wording of the specification; each says so. Scores and averages are real numbers here,
  as in the formulas of the specification.
\<close>

subsection \<open>Data model\<close>

text \<open>
  Modelled from the spec: \<open>SentimentResult\<close> of the data model, the result that the
  missing Fusion Scorer attaches to a mention (score, confidence, label, \<open>per_model_scores\<close>).
\<close>

record SentimentResult =
  sr_score :: real
  sr_confidence :: real
  sr_label :: sentiment_category
  per_model_scores :: "(string \<times> real) list"

text \<open>
  Modelled from the spec: \<open>Mention\<close> of the data model, the persisted record that the
  missing scoring pipeline writes. The members that no aggregate reads (text, emotions,
  topic tags, derivation flag, source URL) are left out. \<open>created_at\<close> is in seconds
  since the epoch.
\<close>

record Mention =
  mention_id :: nat
  entity_name :: string
  source_id :: string
  created_at :: int
  sentiment :: SentimentResult

text \<open>
  Modelled from the spec: the errors of the engine (error handling design); the read
  path raises only \<open>InvalidParameters\<close>.
\<close>

datatype engine_error = EnsembleExhausted | InvalidParameters | JobNotFound

text \<open>
  Modelled from the spec: a mention qualifies for a request when it lies within the
  trailing \<open>window_days\<close> days before \<open>now\<close>.
\<close>

definition in_window :: "int \<Rightarrow> int \<Rightarrow> int \<Rightarrow> bool" where
  "in_window now window_days t = (now - window_days * 86400 \<le> t \<and> t \<le> now)"

text \<open>
  Modelled from the spec: the plain mean of the averages. It is only taken of the scores
  of a group that has a mention.
\<close>

definition mean :: "real list \<Rightarrow> real" where
  "mean xs = sum_list xs / real (length xs)"

subsection \<open>Quality Aggregator\<close>

text \<open>
  Modelled from the spec: the configuration of the missing Quality Aggregator, the
  weights of its blend. The specification leaves their values open.
\<close>

record quality_weights =
  acceptance_weight :: real
  confidence_weight :: real
  spam_penalty :: real

text \<open>
  Modelled from the spec: \<open>quality_score\<close> of a \<open>QualityMetricsSnapshot\<close>, ``a weighted
  blend of acceptance rate, average confidence, and a penalty proportional to
  spam-filtered fraction'', kept within the range \<open>[0, 1]\<close> that the data model gives it.
\<close>

definition quality_score :: "quality_weights \<Rightarrow> real \<Rightarrow> real \<Rightarrow> real \<Rightarrow> real" where
  "quality_score w acceptance_rate avg_conf spam_fraction =
     max 0 (min 1
       (acceptance_weight w * acceptance_rate + confidence_weight w * avg_conf
          - spam_penalty w * spam_fraction))"

subsection \<open>Trend Aggregator\<close>

text \<open>
  Modelled from the spec: the bucket sizes that the missing Trend Aggregator accepts,
  \<open>granularity: {daily, weekly, monthly}\<close>.
\<close>

datatype granularity = Daily | Weekly | Monthly

text \<open>
  Modelled from the spec: \<open>TrendPoint\<close> of the data model, with the key
  \<open>(entity_name, bucket_start, granularity)\<close>.
\<close>

record TrendPoint =
  tp_entity_name :: string
  bucket_start :: int
  tp_granularity :: granularity
  mention_count :: nat
  avg_sentiment :: real
  avg_confidence :: real
  positive_count :: nat
  negative_count :: nat
  neutral_count :: nat

text \<open>
  Modelled from the spec: the optional entity filter of \<open>aggregate\<close>; without it every
  entity is requested.
\<close>

definition requested :: "string list option \<Rightarrow> string \<Rightarrow> bool" where
  "requested entities e = (case entities of None \<Rightarrow> True | Some es \<Rightarrow> e \<in> set es)"

text \<open>
  Modelled from the spec: the mentions that a request of the missing Trend Aggregator
  reads, those of a requested entity within the window.
\<close>

definition qualifying :: "int \<Rightarrow> string list option \<Rightarrow> int \<Rightarrow> Mention list \<Rightarrow> Mention list" where
  "qualifying now entities window_days mentions =
     filter (\<lambda>m. requested entities (entity_name m) \<and> in_window now window_days (created_at m))
       mentions"

text \<open>
  Modelled from the spec: mentions are grouped by \<open>(entity_name, bucket)\<close>, the bucket
  being \<open>created_at\<close> truncated to the granularity boundary. The calendar truncation
  (calendar day, ISO week start, calendar month start) is the parameter \<open>bucket_of\<close>.
\<close>

definition bucket_key :: "(granularity \<Rightarrow> int \<Rightarrow> int) \<Rightarrow> granularity \<Rightarrow> Mention \<Rightarrow> int \<times> string" where
  "bucket_key bucket_of g m = (bucket_of g (created_at m), entity_name m)"

text \<open>
  Modelled from the spec: the tally of one label category (\<open>positive_count\<close>,
  \<open>negative_count\<close>, \<open>neutral_count\<close> of a \<open>TrendPoint\<close>).
\<close>

definition count_label :: "sentiment_category \<Rightarrow> Mention list \<Rightarrow> nat" where
  "count_label c ms = length (filter (\<lambda>m. sr_label (sentiment m) = c) ms)"

text \<open>
  Modelled from the spec: the point of one group; the averages are plain means over the
  bucket's mentions, the counts exact tallies of the label categories.
\<close>

definition trend_point :: "granularity \<Rightarrow> int \<times> string \<Rightarrow> Mention list \<Rightarrow> TrendPoint" where
  "trend_point g k ms =
     \<lparr>tp_entity_name = snd k, bucket_start = fst k, tp_granularity = g,
      mention_count = length ms,
      avg_sentiment = mean (map (\<lambda>m. sr_score (sentiment m)) ms),
      avg_confidence = mean (map (\<lambda>m. sr_confidence (sentiment m)) ms),
      positive_count = count_label Positive ms,
      negative_count = count_label Negative ms,
      neutral_count = count_label Neutral ms\<rparr>"

text \<open>
  Modelled from the spec: \<open>aggregate(entities?, window_days, granularity)\<close> of the missing
  Trend Aggregator, over the persisted mentions and the time of the request. A
  non-positive window is rejected before any work. One point is emitted per key that a
  qualifying mention has, in the order of the keys (bucket, then entity), so that the
  output does not depend on the order of the mentions.
\<close>

definition aggregate ::
  "(granularity \<Rightarrow> int \<Rightarrow> int) \<Rightarrow> int \<Rightarrow> Mention list \<Rightarrow> string list option \<Rightarrow> int \<Rightarrow> granularity
     \<Rightarrow> engine_error + TrendPoint list" where
  "aggregate bucket_of now mentions entities window_days g =
     (if window_days \<le> 0 then Inl InvalidParameters
      else
        let ms = qualifying now entities window_days mentions;
            keys = sort (remdups (map (bucket_key bucket_of g) ms))
        in Inr (map (\<lambda>k. trend_point g k (filter (\<lambda>m. bucket_key bucket_of g m = k) ms)) keys))"

subsection \<open>Comparison Engine\<close>

text \<open>
  Modelled from the spec: the metrics of \<open>compare\<close> and their values over the qualifying
  mentions of one entity. An entity without qualifying mentions has the count 0 and no
  average (it is not treated as zero).
\<close>

datatype metric = AvgSentiment | TotalMentions | AvgConfidence

fun metric_value :: "metric \<Rightarrow> Mention list \<Rightarrow> real option" where
  "metric_value TotalMentions ms = Some (real (length ms))"
| "metric_value AvgSentiment ms =
     (if ms = [] then None else Some (mean (map (\<lambda>m. sr_score (sentiment m)) ms)))"
| "metric_value AvgConfidence ms =
     (if ms = [] then None else Some (mean (map (\<lambda>m. sr_confidence (sentiment m)) ms)))"

text \<open>
  Modelled from the spec: the value of a metric for one entity of a comparison, over the
  entity's mentions within the trailing \<open>window_days\<close>.
\<close>

definition entity_value :: "int \<Rightarrow> Mention list \<Rightarrow> int \<Rightarrow> metric \<Rightarrow> string \<Rightarrow> real option" where
  "entity_value now mentions window_days mt e =
     metric_value mt
       (filter (\<lambda>m. entity_name m = e \<and> in_window now window_days (created_at m)) mentions)"

text \<open>
  Modelled from the spec: the order of a ranking, ``descending by value, ties broken by
  entity name ascending''. An entity without a value comes after every entity with one
  (\<open>None\<close> is below every \<open>Some\<close>).
\<close>

definition ranks_before :: "(string \<Rightarrow> real option) \<Rightarrow> string \<Rightarrow> string \<Rightarrow> bool" where
  "ranks_before v a b = (v b < v a \<or> (v a = v b \<and> a \<le> b))"

text \<open>
  Modelled from the spec: the ranking of the missing Comparison Engine, the requested
  entities sorted into that order; each entity is inserted before the first one that it
  ranks before.
\<close>

fun insert_ranked :: "(string \<Rightarrow> real option) \<Rightarrow> string \<Rightarrow> string list \<Rightarrow> string list" where
  "insert_ranked v e [] = [e]"
| "insert_ranked v e (x # xs) =
     (if ranks_before v e x then e # x # xs else x # insert_ranked v e xs)"

definition rank_entities :: "(string \<Rightarrow> real option) \<Rightarrow> string list \<Rightarrow> string list" where
  "rank_entities v es = foldr (insert_ranked v) es []"

text \<open>Modelled from the spec: \<open>ComparisonResult\<close> of the data model.\<close>

record ComparisonResult =
  cr_entities :: "string list"
  cr_metrics :: "metric list"
  cr_window_days :: int
  per_entity_values :: "(string \<times> (metric \<times> real option) list) list"
  rankings :: "(metric \<times> string list) list"

text \<open>
  Modelled from the spec: \<open>compare(entities, metrics, window_days)\<close> of the missing
  Comparison Engine. The entities and the metrics are sets, so a repeated name counts
  once. An empty entity set, an empty metric set and a non-positive window are invalid.
\<close>

definition compare ::
  "int \<Rightarrow> Mention list \<Rightarrow> string list \<Rightarrow> metric list \<Rightarrow> int \<Rightarrow> engine_error + ComparisonResult" where
  "compare now mentions entities metrics window_days =
     (if entities = [] \<or> metrics = [] \<or> window_days \<le> 0 then Inl InvalidParameters
      else
        let es = remdups entities; mts = remdups metrics;
            v = entity_value now mentions window_days
        in Inr \<lparr>cr_entities = es, cr_metrics = mts, cr_window_days = window_days,
                per_entity_values = map (\<lambda>e. (e, map (\<lambda>mt. (mt, v mt e)) mts)) es,
                rankings = map (\<lambda>mt. (mt, rank_entities (v mt) es)) mts\<rparr>)"

subsection \<open>Example data\<close>

text \<open>
  Five persisted mentions around 2023-06-20T14:30:00Z (\<open>1687271400\<close>): three of entity
  \<open>X\<close> within the last seven days, on two calendar days, one of \<open>X\<close> months earlier and
  one of \<open>Y\<close>. \<open>utc_day\<close> truncates to the calendar day in UTC, whatever the granularity.
\<close>

definition example_mention ::
  "nat \<Rightarrow> string \<Rightarrow> int \<Rightarrow> real \<Rightarrow> real \<Rightarrow> sentiment_category \<Rightarrow> Mention" where
  "example_mention i e t s c l =
     \<lparr>mention_id = i, entity_name = e, source_id = ''t3_'' @ e, created_at = t,
      sentiment = \<lparr>sr_score = s, sr_confidence = c, sr_label = l, per_model_scores = []\<rparr>\<rparr>"

definition example_mentions :: "Mention list" where
  "example_mentions =
     [example_mention 1 ''X'' 1687250000 (3 / 4) (1 / 2) Positive,
      example_mention 2 ''Y'' 1687250000 (1 / 4) (1 / 2) Positive,
      example_mention 3 ''X'' 1687100000 (- 1 / 2) (3 / 4) Negative,
      example_mention 4 ''X'' 1680000000 0 (1 / 4) Neutral,
      example_mention 5 ''X'' 1687260000 (1 / 4) (1 / 4) Positive]"

definition utc_day :: "granularity \<Rightarrow> int \<Rightarrow> int" where
  "utc_day g t = t - t mod 86400"

text \<open>
  Entities \<open>A\<close> and \<open>B\<close> with the same average sentiment \<open>1 / 2\<close>, from one and from two
  mentions.
\<close>

definition tied_mentions :: "Mention list" where
  "tied_mentions =
     [example_mention 1 ''B'' 1687250000 (1 / 4) (1 / 2) Positive,
      example_mention 2 ''A'' 1687250000 (1 / 2) (1 / 2) Positive,
      example_mention 3 ''B'' 1687260000 (3 / 4) (1 / 2) Positive]"

section \<open>Properties of the dashboard code\<close>

lemma js_gt_Finite [simp]: "js_gt (Finite a) (Finite b) = (b < a)"
  by (simp add: js_gt_def js_lt_def)

lemma js_lt_Finite [simp]: "js_lt (Finite a) (Finite b) = (a < b)"
  by (simp add: js_lt_def)

lemma double_0_1_pos: "0 < double_0_1"
  by (simp add: double_0_1_def)

lemma js_neg_double_0_1 [simp]: "js_neg (Finite double_0_1) = Finite (- double_0_1)"
  using double_0_1_pos by simp

lemma not_above_and_below:
  "\<not> (js_gt score (Finite double_0_1) \<and> js_lt score (js_neg (Finite double_0_1)))"
  using double_0_1_pos by (cases score) (auto simp: js_gt_def js_lt_def)

lemma is_inf_signed_inf [simp]: "is_inf (signed_inf s)"
  by (cases s) simp_all

lemma js_div_by_zero_not_finite: "is_zero b \<Longrightarrow> \<not> number_isFinite (js_div rnd a b)"
  by (cases b; cases a) (auto simp: js_div_def number_isFinite_def)

lemma js_mul_not_finite:
  "\<not> number_isFinite a \<Longrightarrow> \<not> number_isFinite (js_mul rnd a (Finite 100))"
  by (cases a) (auto simp: js_mul_def number_isFinite_def)

lemma is_zero_not_gt_zero: "is_zero a \<Longrightarrow> \<not> js_gt a (Finite 0)"
  by (cases a) (auto simp: js_gt_def js_lt_def)

text \<open>
  C1. The label of a score follows the threshold rule, in the Dashboard and in the BarList
  component alike: a score above the threshold \<^verbatim>\<open>0.1\<close> is \<^verbatim>\<open>Positive\<close>, a score below
  \<^verbatim>\<open>-0.1\<close> is \<^verbatim>\<open>Negative\<close>, and every other score is \<^verbatim>\<open>Neutral\<close>; that includes
  the two thresholds themselves and NaN, for which both comparisons are false. The
  comparisons are those of JavaScript, with the double that the literal \<^verbatim>\<open>0.1\<close>
  denotes; on finite scores they compare the real values (fourth conjunct). The score
  written \<^verbatim>\<open>0.1\<close> is neutral, whether read as that double or as the decimal fraction,
  and the score \<^verbatim>\<open>0.1000001\<close> is positive under both readings.
\<close>

theorem sentiment_label_threshold_rule:
  "(js_gt score (Finite double_0_1) \<longrightarrow>
      label (Dashboard_getSentimentLabel score) = ''Positive'' \<and>
      BarList_getSentimentLabel score = ''Positive'') \<and>
   (js_lt score (js_neg (Finite double_0_1)) \<longrightarrow>
      label (Dashboard_getSentimentLabel score) = ''Negative'' \<and>
      BarList_getSentimentLabel score = ''Negative'') \<and>
   (\<not> js_gt score (Finite double_0_1) \<and> \<not> js_lt score (js_neg (Finite double_0_1)) \<longrightarrow>
      label (Dashboard_getSentimentLabel score) = ''Neutral'' \<and>
      BarList_getSentimentLabel score = ''Neutral'') \<and>
   (\<forall>s. js_gt (Finite s) (Finite double_0_1) = (double_0_1 < s) \<and>
        js_lt (Finite s) (js_neg (Finite double_0_1)) = (s < - double_0_1)) \<and>
   label (Dashboard_getSentimentLabel (Finite double_0_1)) = ''Neutral'' \<and>
   BarList_getSentimentLabel (Finite double_0_1) = ''Neutral'' \<and>
   label (Dashboard_getSentimentLabel (js_neg (Finite double_0_1))) = ''Neutral'' \<and>
   BarList_getSentimentLabel (js_neg (Finite double_0_1)) = ''Neutral'' \<and>
   label (Dashboard_getSentimentLabel (Finite double_0_1000001)) = ''Positive'' \<and>
   BarList_getSentimentLabel (Finite double_0_1000001) = ''Positive'' \<and>
   label (Dashboard_getSentimentLabel (Finite (1 / 10))) = ''Neutral'' \<and>
   BarList_getSentimentLabel (Finite (1 / 10)) = ''Neutral'' \<and>
   label (Dashboard_getSentimentLabel (Finite (1000001 / 10000000))) = ''Positive'' \<and>
   BarList_getSentimentLabel (Finite (1000001 / 10000000)) = ''Positive'' \<and>
   label (Dashboard_getSentimentLabel NaN) = ''Neutral'' \<and>
   BarList_getSentimentLabel NaN = ''Neutral''"
  using not_above_and_below [of score] double_0_1_pos
  by (simp add: Dashboard_getSentimentLabel_def BarList_getSentimentLabel_def)
     (simp add: double_0_1_def double_0_1000001_def js_gt_def js_lt_def)

theorem sentiment_label_threshold_rule_witness:
  "js_gt (Finite (1 / 2)) (Finite double_0_1) \<and>
   label (Dashboard_getSentimentLabel (Finite (1 / 2))) = ''Positive'' \<and>
   BarList_getSentimentLabel (Finite (1 / 2)) = ''Positive'' \<and>
   js_lt (Finite (- 1 / 2)) (js_neg (Finite double_0_1)) \<and>
   label (Dashboard_getSentimentLabel (Finite (- 1 / 2))) = ''Negative'' \<and>
   BarList_getSentimentLabel (Finite (- 1 / 2)) = ''Negative'' \<and>
   \<not> js_gt (Finite 0) (Finite double_0_1) \<and>
   \<not> js_lt (Finite 0) (js_neg (Finite double_0_1)) \<and>
   label (Dashboard_getSentimentLabel (Finite 0)) = ''Neutral'' \<and>
   BarList_getSentimentLabel (Finite 0) = ''Neutral''"
  using sentiment_label_threshold_rule [of "Finite (1 / 2)"]
    sentiment_label_threshold_rule [of "Finite (- 1 / 2)"]
    sentiment_label_threshold_rule [of "Finite 0"]
  by (simp add: double_0_1_def)

text \<open>
  C2. The three places that classify a score agree on every score: the Dashboard's label
  function returns the label of BarList's label function and the colour of BarList's
  colour function, and label and colour stand for the same sentiment category.
\<close>

theorem sentiment_classifiers_agree:
  "label (Dashboard_getSentimentLabel score) = BarList_getSentimentLabel score \<and>
   color (Dashboard_getSentimentLabel score) = BarList_getSentimentColor score \<and>
   category_of_label (label (Dashboard_getSentimentLabel score)) =
     Some (category_of_color (BarList_getSentimentColor score)) \<and>
   category_of_label (BarList_getSentimentLabel score) =
     Some (category_of_color (BarList_getSentimentColor score)) \<and>
   category_of_color (color (Dashboard_getSentimentLabel score)) =
     category_of_color (BarList_getSentimentColor score)"
  by (simp add: Dashboard_getSentimentLabel_def BarList_getSentimentLabel_def
      BarList_getSentimentColor_def category_of_label_def)

lemma js_div_finite:
  "a \<noteq> 0 \<Longrightarrow> b \<noteq> 0 \<Longrightarrow> js_div rnd (Finite a) (Finite b) = rnd (a / b)"
  by (simp add: js_div_def)

lemma js_mul_exact:
  "a \<noteq> 0 \<Longrightarrow> b \<noteq> 0 \<Longrightarrow> js_mul Finite (Finite a) (Finite b) = Finite (a * b)"
  by (simp add: js_mul_def)

lemma js_div_zero_zero: "is_zero a \<Longrightarrow> is_zero b \<Longrightarrow> js_div rnd a b = NaN"
  by (cases a; cases b) (auto simp: js_div_def)

lemma js_div_nonzero_zero:
  "a \<noteq> 0 \<Longrightarrow> is_zero b \<Longrightarrow>
   js_div rnd (Finite a) b = signed_inf ((a < 0) \<noteq> sign_bit b)"
  by (cases b) (auto simp: js_div_def)

lemma js_mul_special [simp]:
  "js_mul rnd NaN (Finite 100) = NaN"
  "js_mul rnd (signed_inf s) (Finite 100) = signed_inf s"
  by (cases s; simp add: js_mul_def)+

lemma Dashboard_distribution_total_snoc:
  "Dashboard_distribution_total rnd (distribution @ [(k, c)]) =
     js_add rnd (Dashboard_distribution_total rnd distribution) c"
  by (simp add: Dashboard_distribution_total_def)

lemma quality_row_simps [simp]:
  "valid_posts (quality_row v t) = v"
  "total_posts_processed (quality_row v t) = t"
  by (simp_all add: quality_row_def)

text \<open>
  C10. The DataQuality table computes \<^verbatim>\<open>(valid_posts / total_posts_processed) * 100\<close> and
  nothing else: for non-zero finite counts \<open>a\<close> and \<open>b\<close> it is the rounded quotient times
  100 (with exact arithmetic \<open>a / b * 100\<close>, 25 for 50 of 200), and there is no guard, so
  for every row whose total is zero (either zero) the result is not a finite number: NaN
  for \<open>0 / 0\<close>, an infinity for a non-zero count. The Dashboard sums the counts of the
  sentiment distribution from 0, computes the same formula only when \<^verbatim>\<open>total > 0\<close> (40
  for 2000 of 5000), and yields 0 otherwise; with a zero total every row it shows is 0.
\<close>

theorem zero_denominator_percentages:
  "(valid_posts metric = Finite a \<and> total_posts_processed metric = Finite b \<and> a \<noteq> 0 \<and> b \<noteq> 0 \<longrightarrow>
      DataQuality_valid_percentage rnd metric = js_mul rnd (rnd (a / b)) (Finite 100) \<and>
      DataQuality_valid_percentage Finite metric = Finite (a / b * 100)) \<and>
   (is_zero (total_posts_processed metric) \<longrightarrow>
      \<not> number_isFinite (DataQuality_valid_percentage rnd metric)) \<and>
   (is_zero (valid_posts metric) \<and> is_zero (total_posts_processed metric) \<longrightarrow>
      DataQuality_valid_percentage rnd metric = NaN) \<and>
   (valid_posts metric = Finite a \<and> a \<noteq> 0 \<and> is_zero (total_posts_processed metric) \<longrightarrow>
      DataQuality_valid_percentage rnd metric =
        signed_inf ((a < 0) \<noteq> sign_bit (total_posts_processed metric))) \<and>
   Dashboard_distribution_total rnd [] = Finite 0 \<and>
   Dashboard_distribution_total rnd (distribution @ [(k, c)]) =
     js_add rnd (Dashboard_distribution_total rnd distribution) c \<and>
   (js_gt (Dashboard_distribution_total rnd distribution) (Finite 0) \<longrightarrow>
      Dashboard_percentage rnd distribution cnt =
        js_mul rnd (js_div rnd cnt (Dashboard_distribution_total rnd distribution)) (Finite 100)) \<and>
   (cnt = Finite n \<and> n \<noteq> 0 \<and> Dashboard_distribution_total Finite distribution = Finite t \<and> 0 < t \<longrightarrow>
      Dashboard_percentage Finite distribution cnt = Finite (n / t * 100)) \<and>
   (\<not> js_gt (Dashboard_distribution_total rnd distribution) (Finite 0) \<longrightarrow>
      Dashboard_percentage rnd distribution cnt = Finite 0) \<and>
   (is_zero (Dashboard_distribution_total rnd distribution) \<longrightarrow>
      Dashboard_percentage rnd distribution cnt = Finite 0 \<and>
      (\<forall>row \<in> set (Dashboard_distribution_rows rnd distribution). snd row = Finite 0)) \<and>
   map fst (Dashboard_distribution_rows rnd distribution) = map fst distribution \<and>
   map snd (Dashboard_distribution_rows rnd distribution) =
     map (\<lambda>row. Dashboard_percentage rnd distribution (snd row)) distribution"
proof -
  have finite_case: "DataQuality_valid_percentage rnd metric = js_mul rnd (rnd (a / b)) (Finite 100) \<and>
      DataQuality_valid_percentage Finite metric = Finite (a / b * 100)"
    if "valid_posts metric = Finite a" "total_posts_processed metric = Finite b" "a \<noteq> 0" "b \<noteq> 0"
    using that by (simp add: DataQuality_valid_percentage_def js_div_finite js_mul_exact)
  have not_finite: "\<not> number_isFinite (DataQuality_valid_percentage rnd metric)"
    if "is_zero (total_posts_processed metric)"
    using that by (simp add: DataQuality_valid_percentage_def js_div_by_zero_not_finite js_mul_not_finite)
  have nan: "DataQuality_valid_percentage rnd metric = NaN"
    if "is_zero (valid_posts metric)" "is_zero (total_posts_processed metric)"
    using that by (simp add: DataQuality_valid_percentage_def js_div_zero_zero)
  have inf: "DataQuality_valid_percentage rnd metric =
        signed_inf ((a < 0) \<noteq> sign_bit (total_posts_processed metric))"
    if "valid_posts metric = Finite a" "a \<noteq> 0" "is_zero (total_posts_processed metric)"
    using that by (simp add: DataQuality_valid_percentage_def js_div_nonzero_zero)
  have guarded: "Dashboard_percentage rnd distribution cnt =
        js_mul rnd (js_div rnd cnt (Dashboard_distribution_total rnd distribution)) (Finite 100)"
    if "js_gt (Dashboard_distribution_total rnd distribution) (Finite 0)"
    using that by (simp add: Dashboard_percentage_def)
  have exact: "Dashboard_percentage Finite distribution cnt = Finite (n / t * 100)"
    if "cnt = Finite n" "n \<noteq> 0" "Dashboard_distribution_total Finite distribution = Finite t" "0 < t"
    using that by (simp add: Dashboard_percentage_def js_div_finite js_mul_exact)
  have zero: "Dashboard_percentage rnd distribution x = Finite 0"
    if "\<not> js_gt (Dashboard_distribution_total rnd distribution) (Finite 0)" for x
    using that by (simp add: Dashboard_percentage_def)
  have rows_zero: "\<forall>row \<in> set (Dashboard_distribution_rows rnd distribution). snd row = Finite 0"
    if "is_zero (Dashboard_distribution_total rnd distribution)"
    using that zero is_zero_not_gt_zero by (auto simp: Dashboard_distribution_rows_def)
  have rows: "map fst (Dashboard_distribution_rows rnd distribution) = map fst distribution"
    "map snd (Dashboard_distribution_rows rnd distribution) =
     map (\<lambda>row. Dashboard_percentage rnd distribution (snd row)) distribution"
    by (simp_all add: Dashboard_distribution_rows_def case_prod_unfold comp_def)
  have empty: "Dashboard_distribution_total rnd [] = Finite 0"
    by (simp add: Dashboard_distribution_total_def)
  show ?thesis
    using finite_case not_finite nan inf guarded exact zero rows_zero rows empty
      Dashboard_distribution_total_snoc [of rnd distribution k c] is_zero_not_gt_zero
    by blast
qed

theorem zero_denominator_percentages_witness:
  "valid_posts (quality_row (Finite 50) (Finite 200)) = Finite 50 \<and>
   total_posts_processed (quality_row (Finite 50) (Finite 200)) = Finite 200 \<and>
   DataQuality_valid_percentage Finite (quality_row (Finite 50) (Finite 200)) = Finite 25 \<and>
   is_zero (valid_posts (quality_row (Finite 0) (Finite 0))) \<and>
   is_zero (total_posts_processed (quality_row (Finite 0) (Finite 0))) \<and>
   DataQuality_valid_percentage Finite (quality_row (Finite 0) (Finite 0)) = NaN \<and>
   \<not> number_isFinite (DataQuality_valid_percentage Finite (quality_row (Finite 0) (Finite 0))) \<and>
   valid_posts (quality_row (Finite 5) (Finite 0)) = Finite 5 \<and>
   is_zero (total_posts_processed (quality_row (Finite 5) (Finite 0))) \<and>
   DataQuality_valid_percentage Finite (quality_row (Finite 5) (Finite 0)) = PosInf \<and>
   Dashboard_distribution_total Finite
      [(''positive'', Finite 2000), (''negative'', Finite 1500), (''neutral'', Finite 1500)] =
     Finite 5000 \<and>
   js_gt (Finite 5000) (Finite 0) \<and>
   Dashboard_percentage Finite
      [(''positive'', Finite 2000), (''negative'', Finite 1500), (''neutral'', Finite 1500)]
      (Finite 2000) = Finite 40 \<and>
   is_zero (Dashboard_distribution_total Finite
      [(''positive'', Finite 0), (''negative'', Finite 0), (''neutral'', Finite 0)]) \<and>
   \<not> js_gt (Dashboard_distribution_total Finite
      [(''positive'', Finite 0), (''negative'', Finite 0), (''neutral'', Finite 0)]) (Finite 0) \<and>
   Dashboard_percentage Finite
      [(''positive'', Finite 0), (''negative'', Finite 0), (''neutral'', Finite 0)]
      (Finite 0) = Finite 0 \<and>
   map snd (Dashboard_distribution_rows Finite
      [(''positive'', Finite 0), (''negative'', Finite 0), (''neutral'', Finite 0)]) =
     [Finite 0, Finite 0, Finite 0]"
proof -
  have total: "Dashboard_distribution_total Finite
      [(''positive'', Finite 2000), (''negative'', Finite 1500), (''neutral'', Finite 1500)] =
     Finite 5000"
    by (simp add: Dashboard_distribution_total_def js_add_def)
  have zero: "Dashboard_distribution_total Finite
      [(''positive'', Finite 0), (''negative'', Finite 0), (''neutral'', Finite 0)] = Finite 0"
    by (simp add: Dashboard_distribution_total_def js_add_def)
  show ?thesis
    using
      zero_denominator_percentages [of "quality_row (Finite 50) (Finite 200)" 50 200 Finite
        "[(''positive'', Finite 2000), (''negative'', Finite 1500), (''neutral'', Finite 1500)]"
        "''unused''" "Finite 0" "Finite 2000" 2000 5000]
      zero_denominator_percentages [of "quality_row (Finite 0) (Finite 0)" 0 0 Finite
        "[(''positive'', Finite 0), (''negative'', Finite 0), (''neutral'', Finite 0)]"
        "''unused''" "Finite 0" "Finite 0" 0 0]
      zero_denominator_percentages [of "quality_row (Finite 5) (Finite 0)" 5 0 Finite
        "[]" "''unused''" "Finite 0" "Finite 0" 0 0]
    by (simp add: total zero Dashboard_distribution_rows_def js_mul_def js_div_def
        number_isFinite_def)
qed

text \<open>
  C9. As stated, the claim fails twice. A response in the documented format, which has
  exactly the members that the client declares, is returned as it is: it has neither
  \<^verbatim>\<open>unique_entities\<close> nor \<^verbatim>\<open>top_entities\<close> but \<^verbatim>\<open>unique_bars\<close>, \<^verbatim>\<open>top_bars\<close> and a further
  member \<^verbatim>\<open>trending_foods\<close>. And a successful response that lacks members is returned as
  it is too, so not every result has a promised shape, under either naming.
\<close>

theorem analytics_summary_shape_counterexample:
  "getAnalyticsSummary (respond_with documented_summary) = Inr documented_summary \<and>
   is_AnalyticsSummary documented_summary \<and>
   dashboard_summary_shape documented_summary \<and>
   \<not> spec_summary_shape documented_summary \<and>
   getAnalyticsSummary (respond_with partial_summary) = Inr partial_summary \<and>
   \<not> spec_summary_shape partial_summary \<and>
   \<not> dashboard_summary_shape partial_summary \<and>
   \<not> is_AnalyticsSummary partial_summary"
  by (simp add: getAnalyticsSummary_def respond_with_def documented_summary_def
      partial_summary_def is_AnalyticsSummary_def required_def optional_def is_top_bar_def
      is_trending_food_def spec_summary_shape_def dashboard_summary_shape_def
      exactly_members_def)

lemma exactly_members_sets:
  "exactly_members req opt v \<Longrightarrow>
   set req \<subseteq> set (property_names v) \<and> set (property_names v) \<subseteq> set (req @ opt)"
  by (auto simp: exactly_members_def list_all_iff)

lemma required_exactly_members:
  "required k (exactly_members req []) v \<Longrightarrow>
   \<exists>d. property k v = Some d \<and> set (property_names d) = set req"
  by (auto simp: required_def exactly_members_def list_all_iff split: option.splits)

text \<open>
  C9, amended. \<^verbatim>\<open>getAnalyticsSummary\<close> returns what the request for
  \<^verbatim>\<open>/analytics/summary\<close> returns, body or error, unchanged. Hence every result has exactly
  the record shape \<^verbatim>\<open>total_mentions\<close>, \<^verbatim>\<open>unique_bars\<close>, \<^verbatim>\<open>avg_sentiment_score\<close>,
  \<^verbatim>\<open>sentiment_distribution\<close> (with exactly positive, negative, neutral), \<^verbatim>\<open>top_bars\<close> (a
  list of exactly name, mentions, sentiment), \<^verbatim>\<open>trending_foods\<close> (a list of exactly food,
  count), an optional \<^verbatim>\<open>data_quality_score\<close> and \<^verbatim>\<open>analysis_date\<close>, provided every body
  that the server sends has it; a result has the shape exactly when the body has it. The
  same holds of conformance to the declared interface.
\<close>

theorem analytics_summary_is_response_body:
  "getAnalyticsSummary get = get ''/analytics/summary'' \<and>
   ((\<forall>body. get ''/analytics/summary'' = Inr body \<longrightarrow> dashboard_summary_shape body) \<longrightarrow>
    (\<forall>r. getAnalyticsSummary get = Inr r \<longrightarrow> dashboard_summary_shape r)) \<and>
   ((\<forall>body. get ''/analytics/summary'' = Inr body \<longrightarrow> is_AnalyticsSummary body) \<longrightarrow>
    (\<forall>r. getAnalyticsSummary get = Inr r \<longrightarrow> is_AnalyticsSummary r)) \<and>
   (getAnalyticsSummary get = Inr result \<longrightarrow>
      dashboard_summary_shape result =
        (\<exists>body. get ''/analytics/summary'' = Inr body \<and> dashboard_summary_shape body)) \<and>
   (dashboard_summary_shape result \<longrightarrow>
      set [''total_mentions'', ''unique_bars'', ''avg_sentiment_score'',
           ''sentiment_distribution'', ''top_bars'', ''trending_foods'', ''analysis_date'']
        \<subseteq> set (property_names result) \<and>
      set (property_names result)
        \<subseteq> set [''total_mentions'', ''unique_bars'', ''avg_sentiment_score'',
                ''sentiment_distribution'', ''top_bars'', ''trending_foods'', ''analysis_date'',
                ''data_quality_score''] \<and>
      (\<exists>d. property ''sentiment_distribution'' result = Some d \<and>
           set (property_names d) = set [''positive'', ''negative'', ''neutral'']))"
proof -
  have pass: "getAnalyticsSummary get = get ''/analytics/summary''"
    by (simp add: getAnalyticsSummary_def split: sum.splits)
  have members:
    "set [''total_mentions'', ''unique_bars'', ''avg_sentiment_score'',
          ''sentiment_distribution'', ''top_bars'', ''trending_foods'', ''analysis_date'']
        \<subseteq> set (property_names result) \<and>
      set (property_names result)
        \<subseteq> set [''total_mentions'', ''unique_bars'', ''avg_sentiment_score'',
                ''sentiment_distribution'', ''top_bars'', ''trending_foods'', ''analysis_date'',
                ''data_quality_score'']"
    if "dashboard_summary_shape result"
    using that exactly_members_sets
      [of "[''total_mentions'', ''unique_bars'', ''avg_sentiment_score'',
            ''sentiment_distribution'', ''top_bars'', ''trending_foods'', ''analysis_date'']"
          "[''data_quality_score'']" result]
    unfolding dashboard_summary_shape_def by simp
  have keys: "\<exists>d. property ''sentiment_distribution'' result = Some d \<and>
           set (property_names d) = set [''positive'', ''negative'', ''neutral'']"
    if "dashboard_summary_shape result"
    using that unfolding dashboard_summary_shape_def
    by (intro required_exactly_members) blast
  have c2: "(\<forall>body. get ''/analytics/summary'' = Inr body \<longrightarrow> P body) \<longrightarrow>
      (\<forall>r. getAnalyticsSummary get = Inr r \<longrightarrow> P r)" for P
    unfolding pass by blast
  have c4: "getAnalyticsSummary get = Inr result \<longrightarrow>
      dashboard_summary_shape result =
        (\<exists>body. get ''/analytics/summary'' = Inr body \<and> dashboard_summary_shape body)"
    unfolding pass by auto
  have c5: "dashboard_summary_shape result \<longrightarrow>
      set [''total_mentions'', ''unique_bars'', ''avg_sentiment_score'',
           ''sentiment_distribution'', ''top_bars'', ''trending_foods'', ''analysis_date'']
        \<subseteq> set (property_names result) \<and>
      set (property_names result)
        \<subseteq> set [''total_mentions'', ''unique_bars'', ''avg_sentiment_score'',
                ''sentiment_distribution'', ''top_bars'', ''trending_foods'', ''analysis_date'',
                ''data_quality_score''] \<and>
      (\<exists>d. property ''sentiment_distribution'' result = Some d \<and>
           set (property_names d) = set [''positive'', ''negative'', ''neutral''])"
  proof
    assume "dashboard_summary_shape result"
    then show "set [''total_mentions'', ''unique_bars'', ''avg_sentiment_score'',
           ''sentiment_distribution'', ''top_bars'', ''trending_foods'', ''analysis_date'']
        \<subseteq> set (property_names result) \<and>
      set (property_names result)
        \<subseteq> set [''total_mentions'', ''unique_bars'', ''avg_sentiment_score'',
                ''sentiment_distribution'', ''top_bars'', ''trending_foods'', ''analysis_date'',
                ''data_quality_score''] \<and>
      (\<exists>d. property ''sentiment_distribution'' result = Some d \<and>
           set (property_names d) = set [''positive'', ''negative'', ''neutral''])"
      using members keys conjunct1 conjunct2 by (intro conjI) blast+
  qed
  show ?thesis
    by (rule conjI [OF pass conjI [OF c2 conjI [OF c2 conjI [OF c4 c5]]]])
qed

theorem analytics_summary_is_response_body_witness:
  "dashboard_summary_shape documented_summary \<and>
   is_AnalyticsSummary documented_summary \<and>
   getAnalyticsSummary (respond_with documented_summary) = Inr documented_summary \<and>
   respond_with documented_summary ''/analytics/summary'' = Inr documented_summary \<and>
   property_names documented_summary =
     [''total_mentions'', ''unique_bars'', ''avg_sentiment_score'', ''sentiment_distribution'',
      ''top_bars'', ''trending_foods'', ''data_quality_score'', ''analysis_date'']"
  using analytics_summary_is_response_body
    [of "respond_with documented_summary" documented_summary]
  by (simp add: respond_with_def documented_summary_def is_AnalyticsSummary_def
      dashboard_summary_shape_def exactly_members_def
      required_def optional_def is_top_bar_def is_trending_food_def)

section \<open>Properties of the analytics engine\<close>

subsection \<open>Quality score\<close>

text \<open>
  C6. With non-negative weights, the quality score is monotonic in each of its inputs when
  the other two are held: it does not fall when the acceptance rate or the average
  confidence rises, and it does not rise when the spam-filtered fraction rises. It stays
  within \<open>[0, 1]\<close>.
\<close>

theorem quality_score_monotonic:
  assumes "0 \<le> acceptance_weight w" and "0 \<le> confidence_weight w" and "0 \<le> spam_penalty w"
  shows "(a \<le> a' \<longrightarrow> quality_score w a c s \<le> quality_score w a' c s) \<and>
         (c \<le> c' \<longrightarrow> quality_score w a c s \<le> quality_score w a c' s) \<and>
         (s \<le> s' \<longrightarrow> quality_score w a c s' \<le> quality_score w a c s) \<and>
         0 \<le> quality_score w a c s \<and> quality_score w a c s \<le> 1"
proof -
  have clamp: "max 0 (min 1 x) \<le> max 0 (min 1 y)" if "x \<le> y" for x y :: real
    using that by linarith
  have acc: "acceptance_weight w * a \<le> acceptance_weight w * a'" if "a \<le> a'"
    using that assms(1) by (rule mult_left_mono)
  have conf: "confidence_weight w * c \<le> confidence_weight w * c'" if "c \<le> c'"
    using that assms(2) by (rule mult_left_mono)
  have spam: "spam_penalty w * s \<le> spam_penalty w * s'" if "s \<le> s'"
    using that assms(3) by (rule mult_left_mono)
  show ?thesis
    unfolding quality_score_def
    using acc conf spam by (auto intro!: clamp)
qed

theorem quality_score_monotonic_witness:
  "(0::real) \<le> acceptance_weight
      \<lparr>acceptance_weight = 1 / 2, confidence_weight = 1 / 2, spam_penalty = 1 / 4\<rparr> \<and>
   (0::real) \<le> confidence_weight
      \<lparr>acceptance_weight = 1 / 2, confidence_weight = 1 / 2, spam_penalty = 1 / 4\<rparr> \<and>
   (0::real) \<le> spam_penalty
      \<lparr>acceptance_weight = 1 / 2, confidence_weight = 1 / 2, spam_penalty = 1 / 4\<rparr> \<and>
   (1 / 2 :: real) \<le> 3 / 4 \<and>
   quality_score \<lparr>acceptance_weight = 1 / 2, confidence_weight = 1 / 2, spam_penalty = 1 / 4\<rparr>
      (1 / 2) (1 / 2) (1 / 2)
     \<le> quality_score \<lparr>acceptance_weight = 1 / 2, confidence_weight = 1 / 2, spam_penalty = 1 / 4\<rparr>
      (3 / 4) (1 / 2) (1 / 2) \<and>
   quality_score \<lparr>acceptance_weight = 1 / 2, confidence_weight = 1 / 2, spam_penalty = 1 / 4\<rparr>
      (1 / 2) (1 / 2) (1 / 2)
     \<le> quality_score \<lparr>acceptance_weight = 1 / 2, confidence_weight = 1 / 2, spam_penalty = 1 / 4\<rparr>
      (1 / 2) (3 / 4) (1 / 2) \<and>
   quality_score \<lparr>acceptance_weight = 1 / 2, confidence_weight = 1 / 2, spam_penalty = 1 / 4\<rparr>
      (1 / 2) (1 / 2) (3 / 4)
     \<le> quality_score \<lparr>acceptance_weight = 1 / 2, confidence_weight = 1 / 2, spam_penalty = 1 / 4\<rparr>
      (1 / 2) (1 / 2) (1 / 2)"
  using quality_score_monotonic
    [of "\<lparr>acceptance_weight = 1 / 2, confidence_weight = 1 / 2, spam_penalty = 1 / 4\<rparr>"
      "1 / 2" "3 / 4" "1 / 2" "1 / 2" "3 / 4" "3 / 4"]
  by simp

subsection \<open>Trend buckets\<close>

lemma sum_indicator_distinct:
  "distinct ks \<Longrightarrow>
   sum_list (map (\<lambda>k. if f = k then (1::nat) else 0) (filter P ks)) =
     (if f \<in> set ks \<and> P f then 1 else 0)"
  by (induction ks) auto

text \<open>
  The sizes of the groups of a list, taken over distinct keys that cover the list, add up
  to the length of the list; this also holds for the keys and the elements that satisfy a
  predicate of the key.
\<close>

lemma group_sizes_sum:
  assumes "distinct ks"
  shows "key ` set ms \<subseteq> set ks \<Longrightarrow>
     sum_list (map (\<lambda>k. length (filter (\<lambda>m. key m = k) ms)) (filter P ks)) =
       length (filter (\<lambda>m. P (key m)) ms)"
proof (induction ms)
  case Nil
  then show ?case by simp
next
  case (Cons m ms)
  have split: "length (filter (\<lambda>x. key x = k) (m # ms)) =
      (if key m = k then 1 else 0) + length (filter (\<lambda>x. key x = k) ms)" for k
    by simp
  have "sum_list (map (\<lambda>k. length (filter (\<lambda>x. key x = k) (m # ms))) (filter P ks)) =
      sum_list (map (\<lambda>k. if key m = k then (1::nat) else 0) (filter P ks)) +
      sum_list (map (\<lambda>k. length (filter (\<lambda>x. key x = k) ms)) (filter P ks))"
    unfolding split by (simp add: sum_list_addf)
  also have "\<dots> = (if P (key m) then 1 else 0) + length (filter (\<lambda>x. P (key x)) ms)"
    using Cons assms by (simp add: sum_indicator_distinct)
  finally show ?case by simp
qed

lemma trend_point_simps [simp]:
  "tp_entity_name (trend_point g k ms) = snd k"
  "bucket_start (trend_point g k ms) = fst k"
  "mention_count (trend_point g k ms) = length ms"
  by (simp_all add: trend_point_def)

text \<open>
  C7. For a valid window and a requested entity, aggregation returns points whose
  \<open>mention_count\<close>s, summed over the points of that entity, are the number of that
  entity's mentions with \<open>created_at\<close> in the window, for every mention set, bucket
  truncation and granularity. Every emitted point counts at least one mention (a bucket
  without mentions is not emitted), and no key is emitted twice.
\<close>

theorem trend_counts_cover_window:
  assumes "0 < window_days" and "requested entities e"
  shows "\<exists>points.
           aggregate bucket_of now mentions entities window_days g = Inr points \<and>
           sum_list (map mention_count (filter (\<lambda>p. tp_entity_name p = e) points)) =
             length (filter (\<lambda>m. entity_name m = e \<and> in_window now window_days (created_at m))
               mentions) \<and>
           (\<forall>p \<in> set points. 0 < mention_count p) \<and>
           distinct (map (\<lambda>p. (bucket_start p, tp_entity_name p)) points)"
proof -
  let ?ms = "qualifying now entities window_days mentions"
  let ?key = "bucket_key bucket_of g"
  let ?keys = "sort (remdups (map ?key ?ms))"
  let ?point = "\<lambda>k. trend_point g k (filter (\<lambda>m. ?key m = k) ?ms)"
  let ?points = "map ?point ?keys"
  have agg: "aggregate bucket_of now mentions entities window_days g = Inr ?points"
    using assms(1) by (simp add: aggregate_def Let_def)
  have dist: "distinct ?keys" and keys: "set ?keys = ?key ` set ?ms"
    by simp_all
  have "filter (\<lambda>p. tp_entity_name p = e) ?points = map ?point (filter (\<lambda>k. snd k = e) ?keys)"
    by (simp add: filter_map comp_def)
  then have "sum_list (map mention_count (filter (\<lambda>p. tp_entity_name p = e) ?points)) =
      sum_list (map (\<lambda>k. length (filter (\<lambda>m. ?key m = k) ?ms)) (filter (\<lambda>k. snd k = e) ?keys))"
    by (simp add: comp_def)
  also have "\<dots> = length (filter (\<lambda>m. snd (?key m) = e) ?ms)"
    using dist keys by (intro group_sizes_sum) simp_all
  also have "\<dots> = length (filter (\<lambda>m. entity_name m = e \<and> in_window now window_days (created_at m))
      mentions)"
    using assms(2) by (simp add: qualifying_def bucket_key_def conj_commute cong: conj_cong)
  finally have total:
    "sum_list (map mention_count (filter (\<lambda>p. tp_entity_name p = e) ?points)) =
      length (filter (\<lambda>m. entity_name m = e \<and> in_window now window_days (created_at m)) mentions)" .
  have pos: "0 < mention_count p" if "p \<in> set ?points" for p
  proof -
    from that obtain k where k: "k \<in> set ?keys" and p: "p = ?point k"
      by auto
    from k keys obtain m where "m \<in> set ?ms" and "?key m = k"
      by auto
    then have "filter (\<lambda>m. ?key m = k) ?ms \<noteq> []"
      by (auto simp: filter_empty_conv)
    with p show ?thesis by simp
  qed
  have "map (\<lambda>p. (bucket_start p, tp_entity_name p)) ?points = ?keys"
    by (simp add: comp_def)
  with dist have "distinct (map (\<lambda>p. (bucket_start p, tp_entity_name p)) ?points)"
    by simp
  with agg total pos show ?thesis
    by blast
qed

theorem trend_counts_cover_window_witness:
  "(0::int) < 7 \<and> requested None ''X'' \<and>
   (\<exists>points.
      aggregate utc_day 1687271400 example_mentions None 7 Daily = Inr points \<and>
      map (\<lambda>p. (tp_entity_name p, bucket_start p, mention_count p)) points =
        [(''X'', 1687046400, 1), (''X'', 1687219200, 2), (''Y'', 1687219200, 1)] \<and>
      sum_list (map mention_count (filter (\<lambda>p. tp_entity_name p = ''X'') points)) = 3)"
  using trend_counts_cover_window [of 7 None "''X''" utc_day 1687271400 example_mentions Daily]
  by (simp add: aggregate_def qualifying_def requested_def in_window_def bucket_key_def
      utc_day_def example_mentions_def example_mention_def)

subsection \<open>Comparison rankings\<close>

lemma ranks_before_total: "ranks_before v a b \<or> ranks_before v b a"
  unfolding ranks_before_def by (metis linorder_less_linear linorder_linear)

lemma ranks_before_trans:
  "ranks_before v a b \<Longrightarrow> ranks_before v b c \<Longrightarrow> ranks_before v a c"
  unfolding ranks_before_def by (metis order.strict_trans order.trans)

lemma set_insert_ranked [simp]: "set (insert_ranked v e xs) = insert e (set xs)"
  by (induction xs) auto

lemma distinct_insert_ranked:
  "e \<notin> set xs \<Longrightarrow> distinct xs \<Longrightarrow> distinct (insert_ranked v e xs)"
  by (induction xs) auto

lemma sorted_insert_ranked:
  "sorted_wrt (ranks_before v) xs \<Longrightarrow> sorted_wrt (ranks_before v) (insert_ranked v e xs)"
proof (induction xs)
  case Nil
  then show ?case by simp
next
  case (Cons x xs)
  show ?case
  proof (cases "ranks_before v e x")
    case True
    then have "\<forall>y \<in> set xs. ranks_before v e y"
      using Cons.prems ranks_before_trans by auto
    with True Cons.prems show ?thesis by simp
  next
    case False
    then have "ranks_before v x e"
      using ranks_before_total by blast
    with False Cons show ?thesis by auto
  qed
qed

lemma set_rank_entities: "set (rank_entities v es) = set es"
  unfolding rank_entities_def by (induction es) auto

lemma distinct_rank_entities: "distinct es \<Longrightarrow> distinct (rank_entities v es)"
  unfolding rank_entities_def
proof (induction es)
  case Nil
  then show ?case by simp
next
  case (Cons e es)
  then have "e \<notin> set (foldr (insert_ranked v) es [])"
    using set_rank_entities [of v es] by (simp add: rank_entities_def)
  with Cons show ?case by (simp add: distinct_insert_ranked)
qed

lemma sorted_rank_entities: "sorted_wrt (ranks_before v) (rank_entities v es)"
  unfolding rank_entities_def by (induction es) (auto intro: sorted_insert_ranked)

text \<open>Between different names the order of a ranking is strict.\<close>

lemma sorted_wrt_strict:
  "sorted_wrt (ranks_before v) xs \<Longrightarrow> distinct xs \<Longrightarrow>
   sorted_wrt (\<lambda>a b. v b < v a \<or> (v a = v b \<and> a < b)) xs"
proof (induction xs)
  case Nil
  then show ?case by simp
next
  case (Cons x xs)
  have "v y < v x \<or> (v x = v y \<and> x < y)" if "y \<in> set xs" for y
  proof -
    from that Cons.prems have "ranks_before v x y" and "x \<noteq> y"
      by auto
    then show ?thesis
      by (auto simp: ranks_before_def)
  qed
  with Cons show ?case by simp
qed

lemma map_of_rankings:
  "mt \<in> set mts \<Longrightarrow> map_of (map (\<lambda>mt. (mt, f mt)) mts) mt = Some (f mt)"
  by (induction mts) auto

text \<open>
  C8. A comparison over a non-empty entity set and a positive window succeeds, and for
  each requested metric its ranking holds every requested entity exactly once, in an order
  in which an earlier entity has a greater value than a later one, or the same value and
  the smaller name. (An entity without mentions has no average and ranks after those that
  have one.)
\<close>

theorem comparison_ranking_order:
  assumes "entities \<noteq> []" and "mt \<in> set metrics" and "0 < window_days"
  shows "\<exists>result ranking.
           compare now mentions entities metrics window_days = Inr result \<and>
           map_of (rankings result) mt = Some ranking \<and>
           set ranking = set entities \<and> distinct ranking \<and>
           sorted_wrt
             (\<lambda>a b. entity_value now mentions window_days mt b
                       < entity_value now mentions window_days mt a \<or>
                     (entity_value now mentions window_days mt a
                        = entity_value now mentions window_days mt b \<and> a < b))
             ranking"
proof -
  let ?v = "entity_value now mentions window_days"
  let ?r = "rank_entities (?v mt) (remdups entities)"
  from assms have valid: "\<not> (entities = [] \<or> metrics = [] \<or> window_days \<le> 0)"
    by auto
  have lookup:
    "map_of (map (\<lambda>mt. (mt, rank_entities (?v mt) (remdups entities))) (remdups metrics)) mt
      = Some ?r"
    using assms(2) by (intro map_of_rankings) simp
  have "set ?r = set entities"
    by (simp add: set_rank_entities)
  moreover have d: "distinct ?r"
    by (simp add: distinct_rank_entities)
  moreover have "sorted_wrt (\<lambda>a b. ?v mt b < ?v mt a \<or> (?v mt a = ?v mt b \<and> a < b)) ?r"
    using sorted_rank_entities d by (rule sorted_wrt_strict)
  ultimately show ?thesis
    using valid lookup by (simp add: compare_def Let_def)
qed

text \<open>
  The example of the claim: \<open>A\<close> and \<open>B\<close> have the same average sentiment and rank as
  \<open>[A, B]\<close>, in whichever order the request names them.
\<close>

theorem comparison_ranking_order_witness:
  "[''A'', ''B''] \<noteq> [] \<and> [''B'', ''A''] \<noteq> [] \<and>
   AvgSentiment \<in> set [AvgSentiment, TotalMentions] \<and> (0::int) < 30 \<and>
   entity_value 1687271400 tied_mentions 30 AvgSentiment ''A'' = Some (1 / 2) \<and>
   entity_value 1687271400 tied_mentions 30 AvgSentiment ''B'' = Some (1 / 2) \<and>
   (\<exists>result.
      compare 1687271400 tied_mentions [''A'', ''B''] [AvgSentiment, TotalMentions] 30
        = Inr result \<and>
      rankings result = [(AvgSentiment, [''A'', ''B'']), (TotalMentions, [''B'', ''A''])]) \<and>
   (\<exists>result.
      compare 1687271400 tied_mentions [''B'', ''A''] [AvgSentiment, TotalMentions] 30
        = Inr result \<and>
      rankings result = [(AvgSentiment, [''A'', ''B'']), (TotalMentions, [''B'', ''A''])])"
  using comparison_ranking_order
      [of "[''A'', ''B'']" AvgSentiment "[AvgSentiment, TotalMentions]" 30 1687271400 tied_mentions]
    comparison_ranking_order
      [of "[''B'', ''A'']" AvgSentiment "[AvgSentiment, TotalMentions]" 30 1687271400 tied_mentions]
  by (simp add: compare_def Let_def rank_entities_def entity_value_def in_window_def
      ranks_before_def mean_def tied_mentions_def example_mention_def)

end
